theory Spec2Isabelle
  imports
    Complex_Main
    "HOL-Library.Char_ord"
    "HOL-Library.List_Lexorder"
    "HOL-Library.Product_Lexorder"
    "HOL-Library.Multiset"
    "HOL-Library.Sublist"
begin

section \<open>Values and documents\<close>

text \<open>
  The backend (\<^verbatim>\<open>backend/app.py\<close>) keeps two collections of a document store:
  \<^verbatim>\<open>transactions\<close> and \<^verbatim>\<open>edits\<close>. Documents are dictionaries from field names to
  dynamically typed values: what a JSON payload can carry (null, booleans, integers,
  floats with NaN and the two infinities, strings, arrays, objects) and the datetimes of
  the \<^verbatim>\<open>timestamp\<close> field, in milliseconds since the epoch. A finite float is given by
  its value, a rational number; an object is an association list, as Python dictionaries
  keep their order.
\<close>

datatype pyval =
    PNone
  | PBool bool
  | PInt int
  | PFloat rat
  | PNaN
  | PInf bool
  | PStr string
  | PDate int
  | PList "pyval list"
  | PDict "(string \<times> pyval) list"

text \<open>
  Python's \<^verbatim>\<open>==\<close>. Booleans, integers and finite floats compare by numeric value
  (\<^verbatim>\<open>True == 1\<close>, \<^verbatim>\<open>100 == 100.0\<close>); NaN is equal to nothing, itself included; lists are
  equal when they have the same length and equal elements; dictionaries are equal when
  they have the same number of keys and each key of the one has an equal value in the
  other; any other value is equal only to itself.
\<close>

fun py_num :: "pyval \<Rightarrow> rat option" where
  "py_num (PBool b) = Some (if b then 1 else 0)"
| "py_num (PInt i) = Some (of_int i)"
| "py_num (PFloat q) = Some q"
| "py_num v = None"

definition scalar_eq :: "pyval \<Rightarrow> pyval \<Rightarrow> bool" where
  "scalar_eq a b =
     (a \<noteq> PNaN \<and> b \<noteq> PNaN \<and>
      (case py_num a of
         Some x \<Rightarrow> (case py_num b of Some y \<Rightarrow> x = y | None \<Rightarrow> False)
       | None \<Rightarrow> (case py_num b of Some y \<Rightarrow> False | None \<Rightarrow> a = b)))"

fun py_eq :: "pyval \<Rightarrow> pyval \<Rightarrow> bool"
  and py_eq_list :: "pyval list \<Rightarrow> pyval list \<Rightarrow> bool"
  and py_eq_items :: "(string \<times> pyval) list \<Rightarrow> (string \<times> pyval) list \<Rightarrow> bool" where
  "py_eq (PList xs) b = (case b of PList ys \<Rightarrow> py_eq_list xs ys | _ \<Rightarrow> False)"
| "py_eq (PDict m) b =
     (case b of PDict n \<Rightarrow> length m = length n \<and> py_eq_items m n | _ \<Rightarrow> False)"
| "py_eq a b = scalar_eq a b"
| "py_eq_list [] ys = (ys = [])"
| "py_eq_list (x # xs) ys =
     (case ys of [] \<Rightarrow> False | y # ys' \<Rightarrow> py_eq x y \<and> py_eq_list xs ys')"
| "py_eq_items [] n = True"
| "py_eq_items (kv # m) n =
     (list_ex (\<lambda>kw. fst kw = fst kv \<and> py_eq (snd kv) (snd kw)) n \<and> py_eq_items m n)"

definition py_ne :: "pyval \<Rightarrow> pyval \<Rightarrow> bool" where
  "py_ne a b = (\<not> py_eq a b)"


text \<open>
  A stored document: the \<^verbatim>\<open>_id\<close> the store assigned on insert (an ObjectId, kept as its
  hexadecimal string) and the other fields. A Python dictionary in which iteration order
  matters (the request payload) is an association list with distinct keys.
\<close>

record doc =
  oid :: string
  items :: "string \<rightharpoonup> pyval"

type_synonym json = "string \<rightharpoonup> pyval"

type_synonym payload = "(string \<times> pyval) list"

text \<open>\<^verbatim>\<open>dict.get(k)\<close>: the value, or \<^verbatim>\<open>None\<close> when the key is absent.\<close>

definition doc_get :: "doc \<Rightarrow> string \<Rightarrow> pyval" where
  "doc_get d k = (case items d k of None \<Rightarrow> PNone | Some v \<Rightarrow> v)"

definition payload_get :: "payload \<Rightarrow> string \<Rightarrow> pyval \<Rightarrow> pyval" where
  "payload_get p k dflt = (case map_of p k of None \<Rightarrow> dflt | Some v \<Rightarrow> v)"

text \<open>
  \<^verbatim>\<open>doc_to_json\<close>: nothing for no document; otherwise a copy of the document in which
  \<^verbatim>\<open>_id\<close> is replaced by its string.
\<close>

definition doc_to_json :: "doc option \<Rightarrow> json option" where
  "doc_to_json doc =
     (case doc of
        None \<Rightarrow> None
      | Some d \<Rightarrow> Some ((items d)(''_id'' \<mapsto> PStr (oid d))))"

section \<open>The store\<close>

text \<open>
  An audit event, as \<^verbatim>\<open>update_transaction\<close> builds it (the \<^verbatim>\<open>_id\<close> that the store adds on
  insert is left out).
\<close>

record audit_event =
  txn_id :: string
  field :: string
  old_value :: pyval
  new_value :: pyval
  edited_by :: pyval
  edited_at :: int

record db =
  txns :: "doc list"
  edits :: "audit_event list"

text \<open>
  The store's equality condition \<^verbatim>\<open>{field: "text"}\<close>: the field is that string, or it is
  an array with that string among its elements.
\<close>

fun field_is :: "string \<Rightarrow> pyval \<Rightarrow> bool" where
  "field_is t (PStr s) = (s = t)"
| "field_is t (PList vs) = (PStr t \<in> set vs)"
| "field_is t v = False"

text \<open>
  \<^verbatim>\<open>txns.find_one({"txn_id": txn_id})\<close>: the first document, in insertion order, that
  meets the condition.
\<close>

definition has_txn_id :: "string \<Rightarrow> doc \<Rightarrow> bool" where
  "has_txn_id t d = field_is t (doc_get d ''txn_id'')"

fun find_one :: "string \<Rightarrow> doc list \<Rightarrow> doc option" where
  "find_one t [] = None"
| "find_one t (d # ds) = (if has_txn_id t d then Some d else find_one t ds)"

text \<open>
  \<^verbatim>\<open>txns.update_one({"txn_id": txn_id}, {"$set": update})\<close>: the first matching document
  gets every field of \<^verbatim>\<open>update\<close> overwritten or added; \<^verbatim>\<open>update\<close> is a dictionary, so its
  keys are distinct.
\<close>

definition set_fields :: "payload \<Rightarrow> doc \<Rightarrow> doc" where
  "set_fields upd d = d\<lparr>items := items d ++ map_of upd\<rparr>"

fun update_one :: "string \<Rightarrow> payload \<Rightarrow> doc list \<Rightarrow> doc list" where
  "update_one t upd [] = []"
| "update_one t upd (d # ds) =
     (if has_txn_id t d then set_fields upd d # ds else d # update_one t upd ds)"

text \<open>
  The write can be refused, and then \<^verbatim>\<open>update_one\<close> raises. The driver refuses an integer
  outside the 64-bit range, at any depth of a value. Whatever else the driver and the store
  require of a write (the size of the document, its nesting, the names of nested keys) is
  not fixed here: it is the parameter \<open>A\<close>, a condition on the existing document and the
  update.
\<close>

fun int64_ok :: "pyval \<Rightarrow> bool" where
  "int64_ok (PInt i) = (- (2 ^ 63) \<le> i \<and> i < 2 ^ 63)"
| "int64_ok (PList vs) = list_all int64_ok vs"
| "int64_ok (PDict m) = list_all (\<lambda>kv. int64_ok (snd kv)) m"
| "int64_ok v = True"

definition store_takes :: "(doc \<Rightarrow> payload \<Rightarrow> bool) \<Rightarrow> doc \<Rightarrow> payload \<Rightarrow> bool" where
  "store_takes A existing upd = (list_all (\<lambda>kv. int64_ok (snd kv)) upd \<and> A existing upd)"

section \<open>The update endpoint\<close>

text \<open>
  \<^verbatim>\<open>PUT /api/transactions/<txn_id>\<close>, the function \<^verbatim>\<open>update_transaction\<close>. The
  responses that are errors are kept as the message and the HTTP status; an exception
  that the handler does not catch is answered with status 500.
\<close>

type_synonym error = "string \<times> nat"

definition InvalidRequest :: error where
  "InvalidRequest = (''No updatable fields provided'', 400)"

definition NotFound :: error where
  "NotFound = (''Transaction not found'', 404)"

definition InternalError :: error where
  "InternalError = (''Internal Server Error'', 500)"

definition allowed_fields :: "string set" where
  "allowed_fields = {''status'', ''amount'', ''payee'', ''channel'', ''remarks'', ''operator''}"

text \<open>
  The first loop: the entries of the payload whose key is allowed, in the payload's
  order.
\<close>

definition allowed_update :: "payload \<Rightarrow> payload" where
  "allowed_update p = filter (\<lambda>kv. fst kv \<in> allowed_fields) p"

definition operator_of :: "payload \<Rightarrow> pyval" where
  "operator_of p = payload_get p ''operator'' (PStr ''operator_unknown'')"

text \<open>
  The second loop: one change per entry of \<^verbatim>\<open>update\<close> whose value differs (by \<^verbatim>\<open>!=\<close>)
  from the existing document's. Each change reads the clock once; \<open>now n\<close> is the reading
  taken for the \<open>n\<close>-th change of the call.
\<close>

fun changes_of ::
  "string \<Rightarrow> pyval \<Rightarrow> (nat \<Rightarrow> int) \<Rightarrow> doc \<Rightarrow> nat \<Rightarrow> payload \<Rightarrow> audit_event list" where
  "changes_of t who now existing n [] = []"
| "changes_of t who now existing n (kv # upd) =
     (if py_ne (doc_get existing (fst kv)) (snd kv)
      then \<lparr>txn_id = t, field = fst kv, old_value = doc_get existing (fst kv),
            new_value = snd kv, edited_by = who, edited_at = now n\<rparr>
           # changes_of t who now existing (Suc n) upd
      else changes_of t who now existing n upd)"

text \<open>
  The handler. With no change it only reads. With changes it first writes the record,
  where a refused write ends the call with status 500 and nothing written, and then
  inserts the audit events, whose values are stored values and values of the update just
  written.
\<close>

definition update_transaction ::
  "(doc \<Rightarrow> payload \<Rightarrow> bool) \<Rightarrow> db \<Rightarrow> (nat \<Rightarrow> int) \<Rightarrow> string \<Rightarrow> payload
     \<Rightarrow> (error + json option) \<times> db" where
  "update_transaction A s now t p =
     (let update = allowed_update p in
      if update = [] then (Inl InvalidRequest, s)
      else
        (case find_one t (txns s) of
           None \<Rightarrow> (Inl NotFound, s)
         | Some existing \<Rightarrow>
             (let changes = changes_of t (operator_of p) now existing 0 update in
              if changes = [] then (Inr (doc_to_json (find_one t (txns s))), s)
              else if store_takes A existing update
              then
                (let s' = s\<lparr>txns := update_one t update (txns s),
                            edits := edits s @ changes\<rparr>
                 in (Inr (doc_to_json (find_one t (txns s'))), s'))
              else (Inl InternalError, s))))"

text \<open>The audit events a call appended: those of the new state beyond the old ones.\<close>

definition new_events :: "db \<Rightarrow> db \<Rightarrow> audit_event list" where
  "new_events s s' = drop (length (edits s)) (edits s')"

text \<open>An entry of \<^verbatim>\<open>update\<close> differs when the diff loop's test \<^verbatim>\<open>old != v\<close> holds for it.\<close>

definition differs :: "doc \<Rightarrow> string \<times> pyval \<Rightarrow> bool" where
  "differs existing kv = py_ne (doc_get existing (fst kv)) (snd kv)"

text \<open>
  Two observations used in the statements: the entry that the stored record of a
  transaction holds for a key, and the entry that the returned JSON record holds for it
  (nothing when the response is an error).
\<close>

definition stored :: "db \<Rightarrow> string \<Rightarrow> string \<Rightarrow> pyval option" where
  "stored s t k = (case find_one t (txns s) of None \<Rightarrow> None | Some d \<Rightarrow> items d k)"

definition returned :: "(error + json option) \<Rightarrow> string \<Rightarrow> pyval option" where
  "returned r k = (case r of Inl e \<Rightarrow> None | Inr None \<Rightarrow> None | Inr (Some j) \<Rightarrow> j k)"

section \<open>The statistics endpoint\<close>

text \<open>
  \<^verbatim>\<open>GET /api/stats\<close>, the function \<^verbatim>\<open>stats\<close>, runs three aggregation pipelines
  over the transactions, each a \<^verbatim>\<open>$match\<close> stage followed by a \<^verbatim>\<open>$group\<close> stage.

  The store compares and groups values by its own order on values: first by type (null,
  numbers, strings, objects, arrays, booleans, dates), then within the type. Integers and
  floats are one type, compared by numeric value, with NaN below every number and equal to
  itself. Objects and arrays are compared element by element, by type, then by field name,
  then by value, and the shorter one is smaller. The order is given here by a list of
  tokens for each value, compared lexicographically; every array and object ends with a
  token smaller than any other. A document that lacks a field counts as holding null.
\<close>

type_synonym token = "nat \<times> nat \<times> rat \<times> string"

fun bson_tokens :: "pyval \<Rightarrow> token list" where
  "bson_tokens PNone = [(2, 0, 0, [])]"
| "bson_tokens PNaN = [(3, 0, 0, [])]"
| "bson_tokens (PInf b) = [(3, (if b then 3 else 1), 0, [])]"
| "bson_tokens (PInt i) = [(3, 2, of_int i, [])]"
| "bson_tokens (PFloat q) = [(3, 2, q, [])]"
| "bson_tokens (PStr s) = [(4, 0, 0, s)]"
| "bson_tokens (PDict m) =
     (5, 0, 0, []) #
     concat (map (\<lambda>kv. (fst (hd (bson_tokens (snd kv))), 0, 0, fst kv) # bson_tokens (snd kv)) m)
     @ [(0, 0, 0, [])]"
| "bson_tokens (PList vs) = (6, 0, 0, []) # concat (map bson_tokens vs) @ [(0, 0, 0, [])]"
| "bson_tokens (PBool b) = [(9, (if b then 1 else 0), 0, [])]"
| "bson_tokens (PDate t) = [(10, 0, of_int t, [])]"






















subsection \<open>Double precision\<close>


fun bit_length :: "nat \<Rightarrow> nat" where
  "bit_length n = (if n = 0 then 0 else Suc (bit_length (n div 2)))"







subsection \<open>Auxiliary notions\<close>




section \<open>The list endpoint\<close>

text \<open>
  \<^verbatim>\<open>GET /api/transactions\<close>, the function \<^verbatim>\<open>get_transactions\<close>, builds a query
  from the request's arguments, and asks the store for the matching documents, sorted by
  \<^verbatim>\<open>timestamp\<close> descending and cut at \<^verbatim>\<open>limit\<close>. The arguments \<^verbatim>\<open>payer\<close> and \<^verbatim>\<open>payee\<close> are
  handed to the store as regular expressions with the option \<^verbatim>\<open>i\<close> (ignore case).
\<close>

record list_args =
  arg_txn_id :: "string option"
  arg_payer :: "string option"
  arg_payee :: "string option"
  arg_status :: "string option"
  arg_limit :: "int option"

datatype cond = Equals string | RegexI string

text \<open>\<^verbatim>\<open>if txn_id:\<close> and its siblings: an absent argument and an empty one add no condition.\<close>

definition when_given :: "string option \<Rightarrow> string \<Rightarrow> (string \<Rightarrow> cond) \<Rightarrow> (string \<times> cond) list" where
  "when_given a f c =
     (case a of None \<Rightarrow> [] | Some v \<Rightarrow> if v = [] then [] else [(f, c v)])"

definition build_query :: "list_args \<Rightarrow> (string \<times> cond) list" where
  "build_query a =
     when_given (arg_txn_id a) ''txn_id'' Equals @
     when_given (arg_payer a) ''payer'' RegexI @
     when_given (arg_payee a) ''payee'' RegexI @
     when_given (arg_status a) ''status'' Equals"

subsection \<open>Regular expressions\<close>

text \<open>
  The store's regular expressions are interpreted here on a fragment: patterns made of
  letters, digits, a few plain punctuation characters and the dot, searched in strings of
  printable ASCII characters. There a letter matches itself in either case, any other
  plain character matches itself, the dot matches any character, and the pattern may match
  anywhere in the string; every such pattern compiles. Outside the fragment the store's
  engine is not interpreted: it is the parameter \<open>E\<close>, which says whether a pattern
  compiles and whether it is found in a string. A pattern that does not compile makes the
  store raise an error.
\<close>

record rx_engine =
  compiles :: "string \<Rightarrow> bool"
  finds :: "string \<Rightarrow> string \<Rightarrow> bool"

definition rx_plain :: "char list" where
  "rx_plain = ''abcdefghijklmnopqrstuvwxyzABCDEFGHIJKLMNOPQRSTUVWXYZ0123456789 _-,:@/''"

definition rx_supported :: "string \<Rightarrow> bool" where
  "rx_supported p = list_all (\<lambda>c. c \<in> set rx_plain \<or> c = CHR ''.'') p"

definition printable :: "char \<Rightarrow> bool" where
  "printable c = (32 \<le> (of_char c :: nat) \<and> (of_char c :: nat) \<le> 126)"

definition to_lower :: "char \<Rightarrow> char" where
  "to_lower c =
     (case map_of (zip ''ABCDEFGHIJKLMNOPQRSTUVWXYZ'' ''abcdefghijklmnopqrstuvwxyz'') c of
        None \<Rightarrow> c
      | Some l \<Rightarrow> l)"

definition atom_matches :: "char \<Rightarrow> char \<Rightarrow> bool" where
  "atom_matches p c = (p = CHR ''.'' \<or> to_lower p = to_lower c)"

fun matches_here :: "string \<Rightarrow> string \<Rightarrow> bool" where
  "matches_here [] s = True"
| "matches_here (p # ps) [] = False"
| "matches_here (p # ps) (c # cs) = (atom_matches p c \<and> matches_here ps cs)"

fun search :: "string \<Rightarrow> string \<Rightarrow> bool" where
  "search p [] = matches_here p []"
| "search p (c # cs) = (matches_here p (c # cs) \<or> search p cs)"

definition rx_compiles :: "rx_engine \<Rightarrow> string \<Rightarrow> bool" where
  "rx_compiles E p = (rx_supported p \<or> compiles E p)"

definition rx_search :: "rx_engine \<Rightarrow> string \<Rightarrow> string \<Rightarrow> bool" where
  "rx_search E p s =
     (if rx_supported p \<and> list_all printable s then search p s else finds E p s)"

subsection \<open>Find, sort, limit\<close>

text \<open>
  An equality condition holds when the field is that string, or an array with it among
  its elements. A regular expression is tried on the field when it is a string, and on the
  strings among its elements when it is an array.
\<close>

fun strings_of :: "pyval \<Rightarrow> string list" where
  "strings_of (PStr s) = [s]"
| "strings_of (PList vs) = concat (map (\<lambda>v. case v of PStr s \<Rightarrow> [s] | _ \<Rightarrow> []) vs)"
| "strings_of v = []"

fun cond_holds :: "rx_engine \<Rightarrow> cond \<Rightarrow> pyval \<Rightarrow> bool" where
  "cond_holds E (Equals t) v = field_is t v"
| "cond_holds E (RegexI p) v = list_ex (rx_search E p) (strings_of v)"

fun cond_compiles :: "rx_engine \<Rightarrow> cond \<Rightarrow> bool" where
  "cond_compiles E (Equals t) = True"
| "cond_compiles E (RegexI p) = rx_compiles E p"

definition query_holds :: "rx_engine \<Rightarrow> (string \<times> cond) list \<Rightarrow> doc \<Rightarrow> bool" where
  "query_holds E q d = list_all (\<lambda>fc. cond_holds E (snd fc) (doc_get d (fst fc))) q"

definition query_compiles :: "rx_engine \<Rightarrow> (string \<times> cond) list \<Rightarrow> bool" where
  "query_compiles E q = list_all (\<lambda>fc. cond_compiles E (snd fc)) q"

text \<open>
  \<^verbatim>\<open>.sort("timestamp", -1)\<close>: descending in the store's order on values, a missing field
  counting as null and an array counting as its largest element (an empty array below
  everything); documents with equal keys stay in insertion order. \<^verbatim>\<open>.limit(n)\<close>: zero
  means no limit, and a negative number is taken by its absolute value (the store then
  also answers with its first batch only, which is not represented here). The driver
  sends the absolute value as an integer of at most 64 bits and raises for a larger one.
\<close>

definition sort_key_desc :: "pyval \<Rightarrow> token list" where
  "sort_key_desc v =
     (case v of PList vs \<Rightarrow> foldr (\<lambda>x m. max (bson_tokens x) m) vs [] | _ \<Rightarrow> bson_tokens v)"

definition sort_desc :: "string \<Rightarrow> doc list \<Rightarrow> doc list" where
  "sort_desc f ds = rev (sort_key (\<lambda>d. sort_key_desc (doc_get d f)) (rev ds))"

definition limit :: "int \<Rightarrow> 'a list \<Rightarrow> 'a list" where
  "limit n xs = (if n = 0 then xs else take (nat \<bar>n\<bar>) xs)"

definition limit_ok :: "int \<Rightarrow> bool" where
  "limit_ok n = (\<bar>n\<bar> < 2 ^ 63)"

text \<open>
  The endpoint. An error that the driver or the store raises is answered with status
  500.
\<close>

definition get_transactions :: "rx_engine \<Rightarrow> db \<Rightarrow> list_args \<Rightarrow> error + json option list" where
  "get_transactions E s a =
     (let limit_arg = (case arg_limit a of None \<Rightarrow> 100 | Some n \<Rightarrow> n);
          q = build_query a
      in if limit_ok limit_arg \<and> query_compiles E q
         then Inr (map (\<lambda>d. doc_to_json (Some d))
                 (limit limit_arg (sort_desc ''timestamp'' (filter (query_holds E q) (txns s)))))
         else Inl InternalError)"

text \<open>
  The terms of the statements: \<open>json_of d\<close> is written for the JSON form of a stored
  record, its entries with \<^verbatim>\<open>_id\<close> as a string; the value that a returned record holds
  for a key, \<^verbatim>\<open>None\<close> when it has none; a string of printable ASCII characters; and the
  case-insensitive substring, where the lowered pattern occurs in the lowered string.
\<close>

abbreviation json_of :: "doc \<Rightarrow> json option" where
  "json_of d \<equiv> Some ((items d)(''_id'' \<mapsto> PStr (oid d)))"

definition json_get :: "json option \<Rightarrow> string \<Rightarrow> pyval" where
  "json_get r k =
     (case r of None \<Rightarrow> PNone | Some j \<Rightarrow> (case j k of None \<Rightarrow> PNone | Some v \<Rightarrow> v))"



section \<open>Example data\<close>

text \<open>
  A record shaped like the seeded ones (\<^verbatim>\<open>backend/seed_data.py\<close>): it has no
  \<^verbatim>\<open>operator\<close> field. It is the record of the specification's update scenario, with
  \<^verbatim>\<open>amount = 500.00\<close> and \<^verbatim>\<open>status = "Pending"\<close>.
\<close>

definition scenario_doc :: doc where
  "scenario_doc =
     \<lparr>oid = ''652f1c0e9b1e8a3f4c5d6e70'',
      items = [''txn_id'' \<mapsto> PStr ''TXN100001'', ''payer'' \<mapsto> PStr ''Alice'',
               ''payee'' \<mapsto> PStr ''MerchantA'', ''amount'' \<mapsto> PFloat 500,
               ''channel'' \<mapsto> PStr ''UPI'', ''status'' \<mapsto> PStr ''Pending'',
               ''timestamp'' \<mapsto> PDate 1700000000000, ''remarks'' \<mapsto> PStr '''']\<rparr>"

definition scenario_db :: db where
  "scenario_db = \<lparr>txns = [scenario_doc], edits = []\<rparr>"

definition scenario_payload :: payload where
  "scenario_payload =
     [(''status'', PStr ''Success''), (''amount'', PFloat 500), (''operator'', PStr ''alice'')]"

definition noop_payload :: payload where
  "noop_payload = [(''status'', PStr ''Pending''), (''amount'', PInt 500)]"

definition noop_operator_payload :: payload where
  "noop_operator_payload = [(''status'', PStr ''Pending''), (''operator'', PStr ''alice'')]"



text \<open>A store with no condition on a write beyond the range of its integers.\<close>

definition lenient :: "doc \<Rightarrow> payload \<Rightarrow> bool" where
  "lenient existing upd = True"

definition clock0 :: "nat \<Rightarrow> int" where
  "clock0 n = 1700000100000 + int n"

text \<open>
  The five fields that the specification calls mutable. The code's own list,
  \<open>allowed_fields\<close>, has \<^verbatim>\<open>operator\<close> as a sixth; this set only serves to state the
  specification's reading where the two differ.
\<close>

definition spec_mutable_fields :: "string set" where
  "spec_mutable_fields = {''status'', ''amount'', ''payee'', ''channel'', ''remarks''}"

text \<open>
  A small ledger for the two read endpoints, its documents shaped like the seeded ones.
  The window starts at \<open>day0\<close>; the fourth record is older than that. The second record
  holds an integer amount, the others floats.
\<close>

definition txn_doc ::
  "string \<Rightarrow> string \<Rightarrow> string \<Rightarrow> string \<Rightarrow> pyval \<Rightarrow> string \<Rightarrow> string \<Rightarrow> int \<Rightarrow> doc" where
  "txn_doc i t payer payee amount channel status ts =
     \<lparr>oid = i,
      items = [''txn_id'' \<mapsto> PStr t, ''payer'' \<mapsto> PStr payer, ''payee'' \<mapsto> PStr payee,
               ''amount'' \<mapsto> amount, ''channel'' \<mapsto> PStr channel,
               ''status'' \<mapsto> PStr status, ''timestamp'' \<mapsto> PDate ts,
               ''remarks'' \<mapsto> PStr '''']\<rparr>"

definition day0 :: int where
  "day0 = 1700006400000"

definition doc1 :: doc where
  "doc1 = txn_doc ''a1'' ''TXN100001'' ''Alice'' ''MerchantA'' (PFloat (201 / 2))
            ''UPI'' ''Success'' (day0 + 1000)"

definition doc2 :: doc where
  "doc2 = txn_doc ''a2'' ''TXN100002'' ''Bob'' ''StoreX'' (PInt 200)
            ''NEFT'' ''Failed'' day0"

definition doc3 :: doc where
  "doc3 = txn_doc ''a3'' ''TXN100003'' ''Charlie'' ''MerchantB'' (PFloat (201 / 4))
            ''UPI'' ''Failed'' (day0 + 5000)"

definition doc4 :: doc where
  "doc4 = txn_doc ''a4'' ''TXN100004'' ''Diana'' ''VendorY'' (PInt 999)
            ''IMPS'' ''Pending'' (day0 - 1)"

definition ledger :: db where
  "ledger = \<lparr>txns = [doc1, doc2, doc3, doc4], edits = []\<rparr>"

definition no_args :: list_args where
  "no_args = \<lparr>arg_txn_id = None, arg_payer = None, arg_payee = None, arg_status = None,
              arg_limit = None\<rparr>"

text \<open>
  An engine for the examples. Outside the interpreted fragment it knows two patterns: an
  opening parenthesis alone, which does not compile, and \<^verbatim>\<open>^a\<close>, which under the option
  \<^verbatim>\<open>i\<close> is found in the strings that begin with the letter \<^verbatim>\<open>a\<close> in either case.
\<close>

definition sample_engine :: rx_engine where
  "sample_engine =
     \<lparr>compiles = (\<lambda>p. p \<noteq> ''(''),
      finds = (\<lambda>p s. p = ''^a'' \<and> (case s of [] \<Rightarrow> False | c # cs \<Rightarrow> to_lower c = CHR ''a''))\<rparr>"


definition array_doc :: doc where
  "array_doc =
     \<lparr>oid = ''c1'',
      items = [''txn_id'' \<mapsto> PStr ''TXN300001'', ''payer'' \<mapsto> PStr ''Eve'',
               ''payee'' \<mapsto> PStr ''VendorZ'', ''amount'' \<mapsto> PInt 10,
               ''channel'' \<mapsto> PStr ''IMPS'',
               ''status'' \<mapsto> PList [PStr ''Failed'', PStr ''Retried''],
               ''timestamp'' \<mapsto> PDate day0, ''remarks'' \<mapsto> PStr '''']\<rparr>"

definition array_ledger :: db where
  "array_ledger = \<lparr>txns = [array_doc], edits = []\<rparr>"

section \<open>Properties of the update endpoint\<close>





lemma py_eq_num: "py_num a = Some q \<Longrightarrow> py_num b = Some q \<Longrightarrow> py_eq a b"
  by (cases a; cases b) (simp_all add: scalar_eq_def)

lemma allowed_update_keys: "kv \<in> set (allowed_update p) \<Longrightarrow> fst kv \<in> allowed_fields"
  by (auto simp: allowed_update_def)

lemma distinct_allowed_update:
  "distinct (map fst p) \<Longrightarrow> distinct (map fst (allowed_update p))"
  by (simp add: allowed_update_def distinct_map_filter)

lemma changes_of_fields:
  "map field (changes_of t who now ex n upd) = map fst (filter (differs ex) upd)"
  by (induction upd arbitrary: n) (simp_all add: differs_def)

lemma changes_of_Nil_iff:
  "changes_of t who now ex n upd = [] \<longleftrightarrow> filter (differs ex) upd = []"
  by (metis changes_of_fields map_is_Nil_conv)

lemma changes_of_filter_none:
  "k \<notin> fst ` set (filter (differs ex) upd) \<Longrightarrow>
   filter (\<lambda>e. field e = k) (changes_of t who now ex n upd) = []"
proof -
  assume "k \<notin> fst ` set (filter (differs ex) upd)"
  then have "k \<notin> set (map field (changes_of t who now ex n upd))"
    by (simp add: changes_of_fields)
  then show ?thesis
    by (auto simp: filter_empty_conv)
qed


lemma find_one_update_one:
  "''txn_id'' \<notin> fst ` set upd \<Longrightarrow>
   find_one t (update_one t upd ds) = map_option (set_fields upd) (find_one t ds)"
proof (induction ds)
  case Nil
  then show ?case by simp
next
  case (Cons d ds)
  from Cons.prems have "map_of upd ''txn_id'' = None"
    by (simp add: map_of_eq_None_iff)
  then have "has_txn_id t (set_fields upd d) = has_txn_id t d"
    by (simp add: has_txn_id_def doc_get_def set_fields_def map_add_def)
  with Cons show ?case by simp
qed

lemma update_one_other_key:
  "k \<notin> fst ` set upd \<Longrightarrow>
   map (\<lambda>d. items d k) (update_one t upd ds) = map (\<lambda>d. items d k) ds"
proof (induction ds)
  case Nil
  then show ?case by simp
next
  case (Cons d ds)
  from Cons.prems have "map_of upd k = None"
    by (simp add: map_of_eq_None_iff)
  then have "items (set_fields upd d) k = items d k"
    by (simp add: set_fields_def map_add_def)
  with Cons show ?case by simp
qed


lemma txn_id_not_allowed: "''txn_id'' \<notin> allowed_fields"
  by (simp add: allowed_fields_def)

lemma txn_id_not_in_update: "''txn_id'' \<notin> fst ` set (allowed_update p)"
  using allowed_update_keys txn_id_not_allowed by fastforce

text \<open>
  The five ways a call ends: no allowed key in the payload; no such transaction; nothing
  differs; something differs and the write is taken, and then the record is written and
  the changes appended; something differs and the write is refused.
\<close>

lemma update_transaction_cases:
  assumes "update_transaction A s now t p = (r, s')"
  obtains
    (invalid) "allowed_update p = []" "r = Inl InvalidRequest" "s' = s"
  | (missing) "allowed_update p \<noteq> []" "find_one t (txns s) = None" "r = Inl NotFound" "s' = s"
  | (noop) ex where "allowed_update p \<noteq> []" "find_one t (txns s) = Some ex"
      "filter (differs ex) (allowed_update p) = []"
      "r = Inr (doc_to_json (Some ex))" "s' = s"
  | (changed) ex where "allowed_update p \<noteq> []" "find_one t (txns s) = Some ex"
      "filter (differs ex) (allowed_update p) \<noteq> []"
      "store_takes A ex (allowed_update p)"
      "r = Inr (doc_to_json (Some (set_fields (allowed_update p) ex)))"
      "s' = s\<lparr>txns := update_one t (allowed_update p) (txns s),
              edits := edits s @ changes_of t (operator_of p) now ex 0 (allowed_update p)\<rparr>"
  | (refused) ex where "allowed_update p \<noteq> []" "find_one t (txns s) = Some ex"
      "filter (differs ex) (allowed_update p) \<noteq> []"
      "\<not> store_takes A ex (allowed_update p)"
      "r = Inl InternalError" "s' = s"
proof (cases "allowed_update p = []")
  case True
  with assms have "r = Inl InvalidRequest" "s' = s"
    by (simp_all add: update_transaction_def)
  with True show ?thesis by (rule invalid)
next
  case ne: False
  show ?thesis
  proof (cases "find_one t (txns s)")
    case None
    with assms ne have "r = Inl NotFound" "s' = s"
      by (simp_all add: update_transaction_def)
    with ne None show ?thesis by (rule missing)
  next
    case (Some ex)
    show ?thesis
    proof (cases "filter (differs ex) (allowed_update p) = []")
      case True
      then have "changes_of t (operator_of p) now ex 0 (allowed_update p) = []"
        by (simp add: changes_of_Nil_iff)
      with assms ne Some have "r = Inr (doc_to_json (Some ex))" "s' = s"
        by (simp_all add: update_transaction_def)
      with ne Some True show ?thesis by (rule noop)
    next
      case False
      then have ch: "changes_of t (operator_of p) now ex 0 (allowed_update p) \<noteq> []"
        by (simp add: changes_of_Nil_iff)
      show ?thesis
      proof (cases "store_takes A ex (allowed_update p)")
        case taken: True
        have f: "find_one t (update_one t (allowed_update p) (txns s)) =
                 Some (set_fields (allowed_update p) ex)"
          by (simp add: find_one_update_one txn_id_not_in_update Some)
        from assms ne Some ch f taken have
          "r = Inr (doc_to_json (Some (set_fields (allowed_update p) ex)))"
          "s' = s\<lparr>txns := update_one t (allowed_update p) (txns s),
                edits := edits s @ changes_of t (operator_of p) now ex 0 (allowed_update p)\<rparr>"
          by (auto simp add: update_transaction_def Let_def)
        with ne Some False taken show ?thesis by (rule changed)
      next
        case not_taken: False
        with assms ne Some ch have "r = Inl InternalError" "s' = s"
          by (simp_all add: update_transaction_def)
        with ne Some False not_taken show ?thesis by (rule refused)
      qed
    qed
  qed
qed

lemma new_events_cases:
  assumes "update_transaction A s now t p = (r, s')"
  shows "new_events s s' = [] \<or>
    (\<exists>ex. find_one t (txns s) = Some ex \<and>
       new_events s s' = changes_of t (operator_of p) now ex 0 (allowed_update p))"
  using assms by (cases rule: update_transaction_cases) (auto simp: new_events_def)

lemmas eval_defs =
  update_transaction_def allowed_update_def allowed_fields_def has_txn_id_def
  store_takes_def lenient_def new_events_def doc_get_def py_ne_def scalar_eq_def
  operator_of_def payload_get_def set_fields_def doc_to_json_def returned_def stored_def
  scenario_db_def scenario_doc_def scenario_payload_def clock0_def
  spec_mutable_fields_def InvalidRequest_def NotFound_def InternalError_def map_add_def

lemma scenario_events:
  "new_events scenario_db (snd (update_transaction lenient scenario_db clock0 ''TXN100001'' scenario_payload)) =
   [\<lparr>txn_id = ''TXN100001'', field = ''status'', old_value = PStr ''Pending'',
      new_value = PStr ''Success'', edited_by = PStr ''alice'', edited_at = 1700000100000\<rparr>,
    \<lparr>txn_id = ''TXN100001'', field = ''operator'', old_value = PNone,
      new_value = PStr ''alice'', edited_by = PStr ''alice'', edited_at = 1700000100001\<rparr>]"
  by (simp add: eval_defs)

lemma scenario_returned:
  "returned (fst (update_transaction lenient scenario_db clock0 ''TXN100001'' scenario_payload)) ''operator''
     = Some (PStr ''alice'')"
  "returned (fst (update_transaction lenient scenario_db clock0 ''TXN100001'' scenario_payload)) ''status''
     = Some (PStr ''Success'')"
  by (simp_all add: eval_defs)

text \<open>
  \<^bold>\<open>C1\<close> (as the code has it). The code's allow-list has six keys: the five mutable fields
  and \<^verbatim>\<open>operator\<close>. A key outside these six is dropped before the diff: no audit event
  of the call has it as \<open>field\<close>, every stored record keeps the entry it had for that key
  (an absent key stays absent), and the returned record shows the stored entry.
\<close>

theorem allow_list:
  assumes "k \<notin> allowed_fields" and "update_transaction A s now t p = (r, s')"
  shows "edits s' = edits s @ new_events s s' \<and>
         k \<notin> field ` set (new_events s s') \<and>
         map (\<lambda>d. items d k) (txns s') = map (\<lambda>d. items d k) (txns s) \<and>
         (\<forall>j. r = Inr (Some j) \<longrightarrow> k \<noteq> ''_id'' \<longrightarrow> j k = stored s t k)"
proof -
  have notin: "k \<notin> fst ` set (allowed_update p)"
    using assms(1) allowed_update_keys by fastforce
  have ev: "k \<notin> field ` set (changes_of t who now ex n (allowed_update p))" for who ex n
  proof -
    have "set (map field (changes_of t who now ex n (allowed_update p)))
            \<subseteq> fst ` set (allowed_update p)"
      unfolding changes_of_fields by auto
    with notin show ?thesis by auto
  qed
  have "map_of (allowed_update p) k = None"
    using notin by (simp add: map_of_eq_None_iff)
  then have keep: "items (set_fields (allowed_update p) d) k = items d k" for d
    by (simp add: set_fields_def map_add_def)
  from assms(2) show ?thesis
  proof (cases rule: update_transaction_cases)
    case invalid
    then show ?thesis by (simp add: new_events_def)
  next
    case missing
    then show ?thesis by (simp add: new_events_def)
  next
    case (noop ex)
    then show ?thesis by (simp add: new_events_def doc_to_json_def stored_def)
  next
    case (changed ex)
    then show ?thesis
      using ev keep notin
      by (simp add: new_events_def doc_to_json_def stored_def update_one_other_key)
  next
    case (refused ex)
    then show ?thesis by (simp add: new_events_def)
  qed
qed

text \<open>
  An attempt to overwrite \<^verbatim>\<open>payer\<close> along with a change of status: the payer stays
  \<^verbatim>\<open>Alice\<close> and no event names \<^verbatim>\<open>payer\<close>.
\<close>

theorem allow_list_witness:
  "''payer'' \<notin> allowed_fields \<and>
   ''payer'' \<in> fst ` set [(''payer'', PStr ''Mallory''), (''status'', PStr ''Success'')] \<and>
   ''payer'' \<notin> field ` set (new_events scenario_db
      (snd (update_transaction lenient scenario_db clock0 ''TXN100001''
         [(''payer'', PStr ''Mallory''), (''status'', PStr ''Success'')]))) \<and>
   map (\<lambda>d. items d ''payer'')
     (txns (snd (update_transaction lenient scenario_db clock0 ''TXN100001''
         [(''payer'', PStr ''Mallory''), (''status'', PStr ''Success'')])))
     = [Some (PStr ''Alice'')] \<and>
   returned (fst (update_transaction lenient scenario_db clock0 ''TXN100001''
         [(''payer'', PStr ''Mallory''), (''status'', PStr ''Success'')])) ''payer''
     = Some (PStr ''Alice'')"
proof -
  have a: "''payer'' \<notin> allowed_fields"
    by (simp add: allowed_fields_def)
  have b: "update_transaction lenient scenario_db clock0 ''TXN100001''
             [(''payer'', PStr ''Mallory''), (''status'', PStr ''Success'')]
           = (fst (update_transaction lenient scenario_db clock0 ''TXN100001''
                [(''payer'', PStr ''Mallory''), (''status'', PStr ''Success'')]),
              snd (update_transaction lenient scenario_db clock0 ''TXN100001''
                [(''payer'', PStr ''Mallory''), (''status'', PStr ''Success'')]))"
    by simp
  have c: "map (\<lambda>d. items d ''payer'') (txns scenario_db) = [Some (PStr ''Alice'')]"
    by (simp add: scenario_db_def scenario_doc_def)
  have d: "returned (fst (update_transaction lenient scenario_db clock0 ''TXN100001''
         [(''payer'', PStr ''Mallory''), (''status'', PStr ''Success'')])) ''payer''
     = Some (PStr ''Alice'')"
    by (simp add: eval_defs)
  from allow_list [OF a b] a c d show ?thesis
    by simp
qed

text \<open>
  \<^bold>\<open>C1\<close> as stated, with the five mutable fields as the allow-list, fails for the key
  \<^verbatim>\<open>operator\<close>: it is outside the five, the stored record does not have it, and after
  the call of the scenario it is in the returned record and is the \<open>field\<close> of an audit
  event.
\<close>

theorem allow_list_counterexample:
  "''operator'' \<in> fst ` set scenario_payload \<and>
   ''operator'' \<notin> spec_mutable_fields \<and>
   stored scenario_db ''TXN100001'' ''operator'' = None \<and>
   returned (fst (update_transaction lenient scenario_db clock0 ''TXN100001'' scenario_payload))
     ''operator'' = Some (PStr ''alice'') \<and>
   ''operator'' \<in> field ` set (new_events scenario_db
      (snd (update_transaction lenient scenario_db clock0 ''TXN100001'' scenario_payload)))"
proof -
  have "''operator'' \<in> fst ` set scenario_payload"
    by (simp add: scenario_payload_def)
  moreover have "''operator'' \<notin> spec_mutable_fields"
    by (simp add: spec_mutable_fields_def)
  moreover have "stored scenario_db ''TXN100001'' ''operator'' = None"
    by (simp add: stored_def scenario_db_def scenario_doc_def has_txn_id_def doc_get_def)
  ultimately show ?thesis
    by (simp add: scenario_events scenario_returned)
qed


lemma scenario_find: "find_one ''TXN100001'' (txns scenario_db) = Some scenario_doc"
  by (simp add: scenario_db_def has_txn_id_def doc_get_def scenario_doc_def)

lemma scenario_missing: "find_one ''TXN_MISSING'' (txns scenario_db) = None"
  by (simp add: scenario_db_def has_txn_id_def doc_get_def scenario_doc_def)



text \<open>
  \<^bold>\<open>C3\<close> (as the code has it). On an existing record, when the payload has at least one
  allowed key and every allowed entry (the entry for \<^verbatim>\<open>operator\<close> included) equals the
  record's current value, the call succeeds, returns the current record, and leaves both
  collections as they were: no write and no audit event.
\<close>

theorem no_op_suppression:
  assumes "find_one t (txns s) = Some ex"
    and "allowed_update p \<noteq> []"
    and "list_all (\<lambda>kv. py_eq (doc_get ex (fst kv)) (snd kv)) (allowed_update p)"
  shows "update_transaction A s now t p = (Inr (doc_to_json (Some ex)), s) \<and>
         new_events s (snd (update_transaction A s now t p)) = []"
proof -
  from assms(3) have "filter (differs ex) (allowed_update p) = []"
    by (simp add: filter_empty_conv list_all_iff differs_def py_ne_def)
  then have "changes_of t (operator_of p) now ex 0 (allowed_update p) = []"
    by (simp add: changes_of_Nil_iff)
  with assms(1,2) have "update_transaction A s now t p = (Inr (doc_to_json (Some ex)), s)"
    by (simp add: update_transaction_def)
  then show ?thesis by (simp add: new_events_def)
qed

text \<open>
  Submitting the stored status and the stored amount, the latter as the integer \<open>500\<close>
  against the stored float \<open>500.0\<close>.
\<close>

theorem no_op_suppression_witness:
  "find_one ''TXN100001'' (txns scenario_db) = Some scenario_doc \<and>
   allowed_update noop_payload \<noteq> [] \<and>
   list_all (\<lambda>kv. py_eq (doc_get scenario_doc (fst kv)) (snd kv)) (allowed_update noop_payload) \<and>
   update_transaction lenient scenario_db clock0 ''TXN100001'' noop_payload =
     (Inr (doc_to_json (Some scenario_doc)), scenario_db) \<and>
   new_events scenario_db
     (snd (update_transaction lenient scenario_db clock0 ''TXN100001'' noop_payload)) = []"
proof -
  have a: "allowed_update noop_payload \<noteq> []"
    by (simp add: allowed_update_def noop_payload_def allowed_fields_def)
  have b: "list_all (\<lambda>kv. py_eq (doc_get scenario_doc (fst kv)) (snd kv))
             (allowed_update noop_payload)"
    by (simp add: allowed_update_def noop_payload_def allowed_fields_def doc_get_def
        scenario_doc_def scalar_eq_def)
  from no_op_suppression [OF scenario_find a b, of lenient clock0] scenario_find a b
  show ?thesis by (simp add: new_events_def)
qed

text \<open>
  \<^bold>\<open>C3\<close> as stated, with the five mutable fields as the surviving ones, fails when the
  payload also names an operator that the record does not hold: the only surviving field,
  \<^verbatim>\<open>status\<close>, equals the current value, and yet an audit event is appended and the
  record is written.
\<close>

theorem no_op_suppression_counterexample:
  "find_one ''TXN100001'' (txns scenario_db) = Some scenario_doc \<and>
   filter (\<lambda>kv. fst kv \<in> spec_mutable_fields) noop_operator_payload =
     [(''status'', PStr ''Pending'')] \<and>
   py_eq (doc_get scenario_doc ''status'') (PStr ''Pending'') \<and>
   new_events scenario_db
     (snd (update_transaction lenient scenario_db clock0 ''TXN100001'' noop_operator_payload)) =
     [\<lparr>txn_id = ''TXN100001'', field = ''operator'', old_value = PNone,
       new_value = PStr ''alice'', edited_by = PStr ''alice'',
       edited_at = 1700000100000\<rparr>] \<and>
   stored (snd (update_transaction lenient scenario_db clock0 ''TXN100001'' noop_operator_payload))
     ''TXN100001'' ''operator'' = Some (PStr ''alice'') \<and>
   stored scenario_db ''TXN100001'' ''operator'' = None"
proof -
  have "filter (\<lambda>kv. fst kv \<in> spec_mutable_fields) noop_operator_payload =
     [(''status'', PStr ''Pending'')]"
    by (simp add: noop_operator_payload_def spec_mutable_fields_def)
  moreover have "py_eq (doc_get scenario_doc ''status'') (PStr ''Pending'')"
    by (simp add: doc_get_def scenario_doc_def scalar_eq_def)
  moreover have "new_events scenario_db
     (snd (update_transaction lenient scenario_db clock0 ''TXN100001'' noop_operator_payload)) =
     [\<lparr>txn_id = ''TXN100001'', field = ''operator'', old_value = PNone,
       new_value = PStr ''alice'', edited_by = PStr ''alice'',
       edited_at = 1700000100000\<rparr>]"
    by (simp add: eval_defs noop_operator_payload_def)
  moreover have "stored (snd (update_transaction lenient scenario_db clock0 ''TXN100001''
      noop_operator_payload)) ''TXN100001'' ''operator'' = Some (PStr ''alice'')"
    by (simp add: eval_defs noop_operator_payload_def)
  moreover have "stored scenario_db ''TXN100001'' ''operator'' = None"
    by (simp add: stored_def scenario_find) (simp add: scenario_doc_def)
  ultimately show ?thesis using scenario_find by simp
qed

text \<open>
  \<^bold>\<open>C4\<close> (as the code has it). The empty-update check comes first and the existence check
  second. For a transaction id with no record, the call fails with \<open>NotFound\<close> when the
  payload has an allowed key, and with \<open>InvalidRequest\<close> when it has none; in both cases
  nothing is written.
\<close>

theorem not_found_after_empty_check:
  assumes "find_one t (txns s) = None"
  shows "update_transaction A s now t p =
           (if allowed_update p = [] then (Inl InvalidRequest, s) else (Inl NotFound, s))"
  using assms by (simp add: update_transaction_def)

text \<open>
  The scenario's payload sent to an id that has no record.
\<close>

theorem not_found_after_empty_check_witness:
  "find_one ''TXN_MISSING'' (txns scenario_db) = None \<and>
   allowed_update scenario_payload \<noteq> [] \<and>
   update_transaction lenient scenario_db clock0 ''TXN_MISSING'' scenario_payload =
     (Inl NotFound, scenario_db)"
proof -
  have "allowed_update scenario_payload \<noteq> []"
    by (simp add: allowed_update_def scenario_payload_def allowed_fields_def)
  with not_found_after_empty_check [OF scenario_missing, of lenient clock0 scenario_payload]
    scenario_missing
  show ?thesis by simp
qed

text \<open>
  \<^bold>\<open>C4\<close> as stated, for every field map, fails for a payload with no allowed key: on a
  missing id the call answers \<open>InvalidRequest\<close>, not \<open>NotFound\<close>.
\<close>

theorem not_found_counterexample:
  "find_one ''TXN_MISSING'' (txns scenario_db) = None \<and>
   update_transaction lenient scenario_db clock0 ''TXN_MISSING'' [(''unknown_field'', PStr ''x'')] =
     (Inl InvalidRequest, scenario_db) \<and>
   InvalidRequest \<noteq> NotFound"
  by (simp add: scenario_missing update_transaction_def allowed_update_def allowed_fields_def
      InvalidRequest_def NotFound_def)

text \<open>
  \<^bold>\<open>C5\<close> (as the code has it). A payload with none of the six allowed keys is rejected
  with \<open>InvalidRequest\<close>, and the state is unchanged, whether or not the record exists.
\<close>

theorem empty_update_rejected:
  assumes "fst ` set p \<inter> allowed_fields = {}"
  shows "update_transaction A s now t p = (Inl InvalidRequest, s)"
proof -
  from assms have "allowed_update p = []"
    by (auto simp: allowed_update_def filter_empty_conv)
  then show ?thesis by (simp add: update_transaction_def)
qed

text \<open>
  The specification's scenario: only an unknown key, on an existing record.
\<close>

theorem empty_update_rejected_witness:
  "fst ` set [(''unknown_field'', PStr ''x'')] \<inter> allowed_fields = {} \<and>
   find_one ''TXN100001'' (txns scenario_db) = Some scenario_doc \<and>
   update_transaction lenient scenario_db clock0 ''TXN100001'' [(''unknown_field'', PStr ''x'')] =
     (Inl InvalidRequest, scenario_db)"
proof -
  have a: "fst ` set [(''unknown_field'', PStr ''x'')] \<inter> allowed_fields = {}"
    by (simp add: allowed_fields_def)
  from empty_update_rejected [OF a, of lenient scenario_db clock0 "''TXN100001''"] a scenario_find
  show ?thesis by simp
qed

text \<open>
  \<^bold>\<open>C5\<close> as stated, filtering by the five mutable fields, fails for a payload that only
  names an operator: nothing survives the five-field filter, but the call succeeds, appends
  an audit event for \<^verbatim>\<open>operator\<close> and writes it to the record.
\<close>

theorem empty_update_counterexample:
  "find_one ''TXN100001'' (txns scenario_db) = Some scenario_doc \<and>
   filter (\<lambda>kv. fst kv \<in> spec_mutable_fields) [(''operator'', PStr ''bob'')] = [] \<and>
   fst (update_transaction lenient scenario_db clock0 ''TXN100001'' [(''operator'', PStr ''bob'')])
     \<noteq> Inl InvalidRequest \<and>
   new_events scenario_db
     (snd (update_transaction lenient scenario_db clock0 ''TXN100001'' [(''operator'', PStr ''bob'')])) =
     [\<lparr>txn_id = ''TXN100001'', field = ''operator'', old_value = PNone,
       new_value = PStr ''bob'', edited_by = PStr ''bob'', edited_at = 1700000100000\<rparr>] \<and>
   stored (snd (update_transaction lenient scenario_db clock0 ''TXN100001''
      [(''operator'', PStr ''bob'')])) ''TXN100001'' ''operator'' = Some (PStr ''bob'')"
proof -
  have "filter (\<lambda>kv. fst kv \<in> spec_mutable_fields) [(''operator'', PStr ''bob'')] = []"
    by (simp add: spec_mutable_fields_def)
  moreover have
    "fst (update_transaction lenient scenario_db clock0 ''TXN100001'' [(''operator'', PStr ''bob'')])
       \<noteq> Inl InvalidRequest"
    by (simp add: eval_defs)
  moreover have "new_events scenario_db
     (snd (update_transaction lenient scenario_db clock0 ''TXN100001'' [(''operator'', PStr ''bob'')])) =
     [\<lparr>txn_id = ''TXN100001'', field = ''operator'', old_value = PNone,
       new_value = PStr ''bob'', edited_by = PStr ''bob'', edited_at = 1700000100000\<rparr>]"
    by (simp add: eval_defs)
  moreover have "stored (snd (update_transaction lenient scenario_db clock0 ''TXN100001''
      [(''operator'', PStr ''bob'')])) ''TXN100001'' ''operator'' = Some (PStr ''bob'')"
    by (simp add: eval_defs)
  ultimately show ?thesis using scenario_find by simp
qed





text \<open>
  \<^bold>\<open>C8\<close>. Values are compared by Python's \<^verbatim>\<open>!=\<close>, which compares numbers by value
  across integer and float. A submitted amount with the same numeric value as the stored
  one is equal to it, and the call appends no audit event for \<^verbatim>\<open>amount\<close>.
\<close>

theorem numeric_normalisation:
  assumes "distinct (map fst p)" and "(''amount'', v) \<in> set p"
    and "find_one t (txns s) = Some ex"
    and "py_num (doc_get ex ''amount'') = Some q" and "py_num v = Some q"
    and "update_transaction A s now t p = (r, s')"
  shows "py_eq (doc_get ex ''amount'') v \<and>
         filter (\<lambda>e. field e = ''amount'') (new_events s s') = []"
proof -
  have eq: "py_eq (doc_get ex ''amount'') v"
    using assms(4,5) by (rule py_eq_num)
  let ?u = "allowed_update p"
  have du: "distinct (map fst ?u)"
    using assms(1) by (rule distinct_allowed_update)
  have "F \<notin> fst ` set (filter (differs ex) ?u)" if "F = ''amount''" for F
  proof
    assume "F \<in> fst ` set (filter (differs ex) ?u)"
    with that obtain w where w: "(''amount'', w) \<in> set ?u" "differs ex (''amount'', w)"
      by auto
    then have "(''amount'', w) \<in> set p" by (simp add: allowed_update_def)
    with assms(1,2) have "w = v"
      by (metis map_of_is_SomeI option.inject)
    with w eq show False by (simp add: differs_def py_ne_def)
  qed
  then have none: "filter (\<lambda>e. field e = ''amount'') (changes_of t who now ex n ?u) = []"
    for who n
    by (intro changes_of_filter_none) simp
  from new_events_cases [OF assms(6)] assms(3) none eq show ?thesis
    by auto
qed

text \<open>
  The integer \<open>500\<close> submitted against the stored float \<open>500.0\<close>, together with a
  change of status: the only event is the one for \<^verbatim>\<open>status\<close>.
\<close>

theorem numeric_normalisation_witness:
  "distinct (map fst [(''amount'', PInt 500), (''status'', PStr ''Failed'')]) \<and>
   stored scenario_db ''TXN100001'' ''amount'' = Some (PFloat 500) \<and>
   py_num (PFloat 500) = Some 500 \<and> py_num (PInt 500) = Some 500 \<and>
   py_eq (PFloat 500) (PInt 500) \<and>
   map field (new_events scenario_db
     (snd (update_transaction lenient scenario_db clock0 ''TXN100001''
        [(''amount'', PInt 500), (''status'', PStr ''Failed'')]))) = [''status'']"
proof -
  let ?p = "[(''amount'', PInt 500), (''status'', PStr ''Failed'')]"
  let ?res = "update_transaction lenient scenario_db clock0 ''TXN100001'' ?p"
  have d: "distinct (map fst ?p)" by simp
  have m: "(''amount'', PInt 500) \<in> set ?p" by simp
  have g: "doc_get scenario_doc ''amount'' = PFloat 500"
    by (simp add: doc_get_def scenario_doc_def)
  have n1: "py_num (doc_get scenario_doc ''amount'') = Some 500" by (simp add: g)
  have n2: "py_num (PInt 500) = Some 500" by simp
  have r: "?res = (fst ?res, snd ?res)" by simp
  have st: "stored scenario_db ''TXN100001'' ''amount'' = Some (PFloat 500)"
    by (simp add: stored_def scenario_find) (simp add: scenario_doc_def)
  have ev: "map field (new_events scenario_db (snd ?res)) = [''status'']"
    by (simp add: eval_defs)
  from numeric_normalisation [OF d m scenario_find n1 n2 r] g st ev
  show ?thesis by simp
qed

section \<open>Properties of the statistics endpoint\<close>

























subsection \<open>The statistics of the ledger\<close>

text \<open>Evaluation of the double-precision rounding on numerals.\<close>

lemma bit_length_numeral [simp]:
  "bit_length (numeral (Num.Bit0 n)) = Suc (bit_length (numeral n))"
  "bit_length (numeral (Num.Bit1 n)) = Suc (bit_length (numeral n))"
  "bit_length (numeral Num.One) = 1"
  "bit_length (Suc 0) = 1"
  "bit_length 0 = 0"
  by (subst bit_length.simps, simp add: numeral_Bit0_div_2 numeral_Bit1_div_2)+

declare bit_length.simps [simp del]

lemma floor_rat_numeral [simp]:
  "\<lfloor>(numeral a :: rat) / numeral b\<rfloor> = numeral a div numeral b"
  using floor_divide_of_int_eq [of "numeral a" "numeral b", where ?'a = rat] by simp

lemma ceiling_rat_numeral [simp]:
  "\<lceil>(numeral a :: rat) / numeral b\<rceil> = - ((- numeral a) div numeral b)"
  using floor_divide_of_int_eq [of "- numeral a" "numeral b", where ?'a = rat]
  by (simp add: ceiling_def)













section \<open>Properties of the list endpoint\<close>






lemma limit_zero: "limit 0 xs = xs"
  by (simp add: limit_def)



lemma mset_sort_desc: "mset (sort_desc f ds) = mset ds"
  by (simp add: sort_desc_def)


lemma sorted_sort_desc:
  "sorted_wrt (\<lambda>x y. sort_key_desc (doc_get y f) \<le> sort_key_desc (doc_get x f)) (sort_desc f ds)"
proof -
  have "sorted (map (\<lambda>d. sort_key_desc (doc_get d f))
          (sort_key (\<lambda>d. sort_key_desc (doc_get d f)) (rev ds)))"
    by (rule sorted_sort_key)
  then show ?thesis
    by (simp add: sort_desc_def sorted_wrt_rev sorted_map)
qed

lemma json_get_doc:
  "k \<noteq> ''_id'' \<Longrightarrow> json_get (json_of d) k = doc_get d k"
  by (simp add: json_get_def doc_get_def)

lemma get_transactions_Inr:
  assumes "limit_ok (case arg_limit a of None \<Rightarrow> 100 | Some n \<Rightarrow> n)"
    and "query_compiles E (build_query a)"
  shows "get_transactions E s a =
     Inr (map json_of
           (limit (case arg_limit a of None \<Rightarrow> 100 | Some n \<Rightarrow> n)
              (sort_desc ''timestamp'' (filter (query_holds E (build_query a)) (txns s)))))"
  using assms by (simp add: get_transactions_def Let_def doc_to_json_def)

lemma get_transactions_Inl:
  assumes "\<not> (limit_ok (case arg_limit a of None \<Rightarrow> 100 | Some n \<Rightarrow> n) \<and>
              query_compiles E (build_query a))"
  shows "get_transactions E s a = Inl InternalError"
  using assms by (simp add: get_transactions_def Let_def)




text \<open>
  \<^bold>\<open>C10\<close>. With \<^verbatim>\<open>limit=0\<close> the result is not cut. Unless a given pattern does not compile,
  in which case the request is answered with an error, the returned records are, up to
  order, the JSON forms of all the records that match the filter, as many as there are,
  sorted by \<^verbatim>\<open>timestamp\<close>, descending.
\<close>

theorem limit_zero_unbounded:
  assumes "arg_limit a = Some 0"
  shows "(case get_transactions E s a of
      Inl e \<Rightarrow> e = InternalError \<and> \<not> query_compiles E (build_query a)
    | Inr rs \<Rightarrow>
        query_compiles E (build_query a) \<and>
        mset rs = mset (map (\<lambda>d. Some ((items d)(''_id'' \<mapsto> PStr (oid d))))
                     (filter (query_holds E (build_query a)) (txns s))) \<and>
        length rs = length (filter (query_holds E (build_query a)) (txns s)) \<and>
        sorted_wrt (\<lambda>x y. sort_key_desc (json_get y ''timestamp'')
                          \<le> sort_key_desc (json_get x ''timestamp'')) rs)"
proof (cases "query_compiles E (build_query a)")
  case False
  with assms have "get_transactions E s a = Inl InternalError"
    by (intro get_transactions_Inl) simp
  with False show ?thesis by simp
next
  case True
  let ?found = "filter (query_holds E (build_query a)) (txns s)"
  define rs where "rs = map json_of (sort_desc ''timestamp'' ?found)"
  have res: "get_transactions E s a = Inr rs"
    using get_transactions_Inr [of a E s] True assms
    by (simp add: rs_def limit_zero limit_ok_def)
  have m: "mset rs = mset (map json_of ?found)"
    unfolding rs_def by (simp add: mset_sort_desc)
  have l: "length rs = length ?found"
    unfolding rs_def by (simp add: sort_desc_def)
  have "sorted_wrt (\<lambda>x y. sort_key_desc (doc_get y ''timestamp'')
           \<le> sort_key_desc (doc_get x ''timestamp'')) (sort_desc ''timestamp'' ?found)"
    by (rule sorted_sort_desc)
  then have srt: "sorted_wrt (\<lambda>x y. sort_key_desc (json_get y ''timestamp'')
                          \<le> sort_key_desc (json_get x ''timestamp'')) rs"
    unfolding rs_def by (simp add: sorted_wrt_map json_get_doc)
  from True m l srt show ?thesis
    unfolding res by simp
qed

subsection \<open>The list endpoint on the ledger\<close>

lemmas list_eval_defs =
  get_transactions_def build_query_def when_given_def query_compiles_def query_holds_def
  rx_compiles_def rx_search_def rx_supported_def rx_plain_def printable_def
  atom_matches_def to_lower_def sort_desc_def sort_key_desc_def limit_def limit_ok_def
  doc_get_def doc_to_json_def sample_engine_def InternalError_def
  ledger_def doc1_def doc2_def doc3_def doc4_def txn_doc_def day0_def no_args_def


lemma ledger_all:
  "get_transactions sample_engine ledger (no_args\<lparr>arg_limit := Some 0\<rparr>) =
     Inr [json_of doc3, json_of doc1, json_of doc2, json_of doc4]"
  by (simp add: list_eval_defs)





lemma ledger_paren:
  "get_transactions sample_engine ledger
     (no_args\<lparr>arg_payer := Some ''('', arg_limit := Some 5\<rparr>) = Inl (''Internal Server Error'', 500)"
  "get_transactions sample_engine ledger
     (no_args\<lparr>arg_payer := Some ''('', arg_limit := Some 0\<rparr>) = Inl (''Internal Server Error'', 500)"
  by (simp_all add: list_eval_defs)

lemma ledger_huge_limit:
  "get_transactions sample_engine ledger (no_args\<lparr>arg_limit := Some (2 ^ 63)\<rparr>) =
     Inl (''Internal Server Error'', 500)"
  by (simp add: list_eval_defs)

lemma ledger_failed_all:
  "get_transactions sample_engine ledger
     (no_args\<lparr>arg_status := Some ''Failed'', arg_limit := Some 0\<rparr>) =
     Inr [json_of doc3, json_of doc2]"
  by (simp add: list_eval_defs)

lemma ledger_json:
  "json_get (json_of doc1) ''payer'' = PStr ''Alice''"
  "json_get (json_of doc1) ''status'' = PStr ''Success''"
  "json_get (json_of doc2) ''status'' = PStr ''Failed''"
  "json_get (json_of doc3) ''status'' = PStr ''Failed''"
  "json_get (json_of doc3) ''payer'' = PStr ''Charlie''"
  "json_get (json_of doc2) ''timestamp'' = PDate 1700006400000"
  "json_get (json_of doc3) ''timestamp'' = PDate 1700006405000"
  "json_get (json_of doc2) ''txn_id'' = PStr ''TXN100002''"
  "json_get (json_of doc3) ''txn_id'' = PStr ''TXN100003''"
  "json_get (json_of doc2) ''_id'' = PStr ''a2''"
  "json_get (json_of doc3) ''_id'' = PStr ''a3''"
  by (simp_all add: json_get_def doc1_def doc2_def doc3_def txn_doc_def day0_def)



text \<open>
  A record whose \<^verbatim>\<open>status\<close> was set to an array is listed under each string of the array.
\<close>

lemma array_status_listed:
  "get_transactions sample_engine array_ledger
     (no_args\<lparr>arg_status := Some ''Failed'', arg_limit := Some 5\<rparr>) = Inr [json_of array_doc] \<and>
   json_get (json_of array_doc) ''status'' = PList [PStr ''Failed'', PStr ''Retried'']"
  by (simp add: list_eval_defs array_ledger_def array_doc_def json_get_def)

text \<open>
  On the ledger, \<^verbatim>\<open>limit=0\<close> returns both failed records, and all four records when there
  is no filter; with a pattern that does not compile it is answered with an error.
\<close>

theorem limit_zero_unbounded_witness:
  "arg_limit (no_args\<lparr>arg_status := Some ''Failed'', arg_limit := Some 0\<rparr>) = Some 0 \<and>
   get_transactions sample_engine ledger
     (no_args\<lparr>arg_status := Some ''Failed'', arg_limit := Some 0\<rparr>) =
     Inr [json_of doc3, json_of doc2] \<and>
   json_get (json_of doc3) ''txn_id'' = PStr ''TXN100003'' \<and>
   json_get (json_of doc2) ''txn_id'' = PStr ''TXN100002'' \<and>
   json_get (json_of doc3) ''_id'' = PStr ''a3'' \<and>
   json_get (json_of doc2) ''_id'' = PStr ''a2'' \<and>
   length (filter (query_holds sample_engine
       (build_query (no_args\<lparr>arg_status := Some ''Failed'', arg_limit := Some 0\<rparr>)))
       (txns ledger)) = 2 \<and>
   get_transactions sample_engine ledger (no_args\<lparr>arg_limit := Some 0\<rparr>) =
     Inr [json_of doc3, json_of doc1, json_of doc2, json_of doc4] \<and>
   length (filter (query_holds sample_engine (build_query (no_args\<lparr>arg_limit := Some 0\<rparr>)))
       (txns ledger)) = 4 \<and>
   length (txns ledger) = 4 \<and>
   get_transactions sample_engine ledger
     (no_args\<lparr>arg_payer := Some ''('', arg_limit := Some 0\<rparr>) =
     Inl (''Internal Server Error'', 500) \<and>
   \<not> query_compiles sample_engine
       (build_query (no_args\<lparr>arg_payer := Some ''('', arg_limit := Some 0\<rparr>))"
proof -
  let ?a = "no_args\<lparr>arg_status := Some ''Failed'', arg_limit := Some 0\<rparr>"
  let ?b = "no_args\<lparr>arg_limit := Some 0\<rparr>"
  let ?d = "no_args\<lparr>arg_payer := Some ''('', arg_limit := Some 0\<rparr>"
  have la: "arg_limit ?a = Some 0" and lb: "arg_limit ?b = Some 0"
    and ld: "arg_limit ?d = Some 0" by simp_all
  from limit_zero_unbounded [where E = sample_engine and s = ledger, OF la]
  have a1: "length (filter (query_holds sample_engine (build_query ?a)) (txns ledger)) = 2"
    unfolding ledger_failed_all by simp
  from limit_zero_unbounded [where E = sample_engine and s = ledger, OF lb]
  have b1: "length (filter (query_holds sample_engine (build_query ?b)) (txns ledger)) = 4"
    unfolding ledger_all by simp
  from limit_zero_unbounded [where E = sample_engine and s = ledger, OF ld]
  have d1: "\<not> query_compiles sample_engine (build_query ?d)"
    unfolding ledger_paren by simp
  have "length (txns ledger) = 4" by (simp add: ledger_def)
  with a1 b1 d1 ledger_failed_all ledger_all ledger_paren(2) la show ?thesis
    by (simp add: ledger_json)
qed

end
